theory Spec2Isabelle
  imports Complex_Main "HOL-Library.Word"
begin

unbundle bit_operations_syntax

section \<open>Data model\<close>

text \<open>
  The intercom classes (\<^verbatim>\<open>intercom_binaural.py\<close>, \<^verbatim>\<open>intercom_dwt.py\<close>) work on
  NumPy arrays of fixed-width signed integers. A sample is a word of width \<open>'a\<close>:
  \<open>+\<close>, \<open>-\<close> and \<open>*\<close> wrap around as NumPy's do, \<open>sint\<close> reads the two's-complement
  value. The width is a type parameter, because the array dtype is fixed by the parent
  classes (\<^verbatim>\<open>Intercom\<close>, \<^verbatim>\<open>Intercom_buffer\<close>), which the two files only import.
  The constants of the pack and unpack statements (\<^verbatim>\<open>0x8000\<close>, \<^verbatim>\<open>0x7FFF\<close>,
  \<^verbatim>\<open>>> 15\<close>) put the sign at bit 15, the top bit of a 16-bit word.

  A stereo chunk is an array of shape (frames, 2): a list of frames, each frame the pair
  of its channel 0 and channel 1 samples.
\<close>

datatype py_error = ValueError | IndexError | ZeroDivisionError

type_synonym 'a frame = "'a word \<times> 'a word"
type_synonym 'a chunk = "'a frame list"

section \<open>Binaural decorrelation\<close>

text \<open>
  \<^verbatim>\<open>Intercom_binaural.record_send_and_play_stereo\<close>, line 24:
  \<^verbatim>\<open>indata[:,0] -= indata[:,1]\<close>, and line 26, on the buffer cell:
  \<^verbatim>\<open>[:,0] += [:,1]\<close>.
\<close>

definition binaural_decorrelate :: "'a::len chunk \<Rightarrow> 'a chunk" where
  "binaural_decorrelate indata = map (\<lambda>(c0, c1). (c0 - c1, c1)) indata"

definition binaural_recorrelate :: "'a::len chunk \<Rightarrow> 'a chunk" where
  "binaural_recorrelate cell = map (\<lambda>(c0, c1). (c0 + c1, c1)) cell"

text \<open>
  \<^verbatim>\<open>Intercom_DWT.record_send_and_play_stereo\<close>, line 112:
  \<^verbatim>\<open>indata[:,1] -= indata[:,0]\<close>, and line 123, on the buffer cell:
  \<^verbatim>\<open>[:,1] += [:,0]\<close>.
\<close>

definition dwt_decorrelate :: "'a::len chunk \<Rightarrow> 'a chunk" where
  "dwt_decorrelate indata = map (\<lambda>(c0, c1). (c0, c1 - c0)) indata"

definition dwt_recorrelate :: "'a::len chunk \<Rightarrow> 'a chunk" where
  "dwt_recorrelate cell = map (\<lambda>(c0, c1). (c0, c1 + c0)) cell"

section \<open>Sign-magnitude packing\<close>

text \<open>
  NumPy's \<^verbatim>\<open>abs\<close> on a signed integer array negates the negative elements in the
  array's own width, so the most negative value is its own absolute value. Where the
  array is narrower than the width of \<open>pack\<close> below, this differs from \<open>np_abs\<close> at the
  array's most negative value only (\<open>-32768\<close> for 16-bit samples), which no statement
  below takes as a sample.
\<close>

definition np_abs :: "'a::len word \<Rightarrow> 'a word" where
  "np_abs x = (if sint x < 0 then - x else x)"

text \<open>
  Lines 114 to 116, element by element:
  \<^verbatim>\<open>signs = indata & 0x8000; magnitudes = abs(indata); indata = signs | magnitudes\<close>.
  NumPy evaluates \<^verbatim>\<open>indata & 0x8000\<close> and the \<^verbatim>\<open>|\<close> in a type that holds
  \<^verbatim>\<open>0x8000\<close> as a positive value, a signed type of more than 16 bits (a 16-bit array
  becomes a 32-bit one, or the operation is refused). The width \<open>'a\<close> of \<open>pack\<close> is that
  type's: every statement about \<open>pack\<close> below is for a width above 16.
\<close>

definition pack :: "'a::len word \<Rightarrow> 'a word" where
  "pack x = (let signs = x AND 0x8000; magnitudes = np_abs x in signs OR magnitudes)"

text \<open>
  Lines 119 to 121, element by element:
  \<^verbatim>\<open>signs = chunk >> 15; magnitudes = chunk & 0x7FFF\<close> and
  \<^verbatim>\<open>chunk = magnitudes + magnitudes*signs*2\<close>. NumPy's \<^verbatim>\<open>>>\<close> on a signed
  array is the arithmetic shift. These statements stay in the cell's own type, of any
  width.
\<close>

definition recombine :: "'a::len word \<Rightarrow> 'a word \<Rightarrow> 'a word" where
  "recombine magnitudes signs = magnitudes + magnitudes * signs * 2"

definition unpack :: "'a::len word \<Rightarrow> 'a word" where
  "unpack c = (let signs = signed_drop_bit 15 c; magnitudes = c AND 0x7FFF
               in recombine magnitudes signs)"

definition pack_chunk :: "'a::len chunk \<Rightarrow> 'a chunk" where
  "pack_chunk indata = map (\<lambda>(c0, c1). (pack c0, pack c1)) indata"

definition unpack_chunk :: "'a::len chunk \<Rightarrow> 'a chunk" where
  "unpack_chunk cell = map (\<lambda>(c0, c1). (unpack c0, unpack c1)) cell"

section \<open>Calibration\<close>

text \<open>
  \<^verbatim>\<open>math.log\<close> raises \<^verbatim>\<open>ValueError\<close> (math domain error) on an argument that is
  not positive.
\<close>

definition math_log_raises :: "real \<Rightarrow> bool" where
  "math_log_raises x \<longleftrightarrow> x \<le> 0"

text \<open>
  \<^verbatim>\<open>Intercom_DWT.get_coeffs_bitplanes\<close>, lines 93 to 101. The argument \<open>arr\<close> is the
  flattened coefficient array of line 96, the forward transform of the random probe of
  line 94: the probe is random and the transform is PyWavelets', so the array is taken as
  given. Its values are floating-point numbers, read here as the real numbers they
  denote; maximum, minimum and the sign of their difference are the same for both.
  \<^verbatim>\<open>np.amax\<close> of an empty array raises \<^verbatim>\<open>ValueError\<close>.

  On a positive range, line 100 computes \<^verbatim>\<open>int(math.floor(math.log(range)/math.log(2)))\<close>
  in floating point, with the platform's rounding of the two logarithms and of the
  quotient. The function \<open>log2_floor\<close> that gives this value is a parameter.
\<close>

definition get_coeffs_bitplanes :: "(real \<Rightarrow> int) \<Rightarrow> real list \<Rightarrow> py_error + int" where
  "get_coeffs_bitplanes log2_floor arr =
     (if arr = [] then Inl ValueError
      else let max_c = Max (set arr); min_c = Min (set arr); range_c = max_c - min_c
           in if math_log_raises range_c then Inl ValueError
              else Inr (log2_floor range_c))"

section \<open>Session state\<close>

text \<open>
  The attributes of \<^verbatim>\<open>self\<close> that the two files read or write.
  \<open>record_send_and_play\<close> is the callback installed for the sound device: the one the
  parent classes installed, or the stereo handler of \<^verbatim>\<open>Intercom_binaural.init\<close>.
  The cells of \<open>buffer\<close> are chunks; the record leaves their type \<open>'c\<close> open.
\<close>

datatype handler = Inherited_handler | Stereo_handler

record 'c intercom =
  number_of_channels :: nat
  record_send_and_play :: handler
  buffer :: "'c list"
  played_chunk_number :: nat
  cells_in_buffer :: nat
  received_bitplanes_per_chunk :: "nat list"
  precision_bits :: int

text \<open>
  \<^verbatim>\<open>Intercom_binaural.init\<close>, lines 16 to 20, on the state that
  \<^verbatim>\<open>Intercom_bitplanes.init\<close> returned.
\<close>

definition binaural_init :: "'c intercom \<Rightarrow> 'c intercom" where
  "binaural_init s =
     (if number_of_channels s = 2 then s\<lparr>record_send_and_play := Stereo_handler\<rparr> else s)"

text \<open>
  \<^verbatim>\<open>Intercom_DWT.init\<close>, lines 80 to 90, on the state that \<^verbatim>\<open>Intercom_empty.init\<close>
  returned, and the main block, lines 136 to 141: \<^verbatim>\<open>init\<close>, then \<^verbatim>\<open>run\<close>. An
  exception of the calibration leaves \<^verbatim>\<open>init\<close>, and \<^verbatim>\<open>run\<close> is never called.
\<close>

definition dwt_init ::
  "(real \<Rightarrow> int) \<Rightarrow> real list \<Rightarrow> 'c intercom \<Rightarrow> py_error + 'c intercom" where
  "dwt_init log2_floor arr s =
     (case get_coeffs_bitplanes log2_floor arr of
        Inl e \<Rightarrow> Inl e
      | Inr bitplanes \<Rightarrow> Inr (s\<lparr>precision_bits := bitplanes\<rparr>))"

definition dwt_main ::
  "(real \<Rightarrow> int) \<Rightarrow> ('c intercom \<Rightarrow> 'r) \<Rightarrow> real list \<Rightarrow> 'c intercom \<Rightarrow> py_error + 'r" where
  "dwt_main log2_floor run arr s =
     (case dwt_init log2_floor arr s of
        Inl e \<Rightarrow> Inl e
      | Inr s' \<Rightarrow> Inr (run s'))"

section \<open>The per-chunk handlers\<close>

text \<open>
  \<^verbatim>\<open>send\<close> and \<^verbatim>\<open>play\<close> are methods of the parent classes: they are parameters,
  functions on the session state (\<^verbatim>\<open>outdata\<close> belongs to \<^verbatim>\<open>play\<close>). The index of
  a buffer cell is \<^verbatim>\<open>played_chunk_number % cells_in_buffer\<close>, which raises
  \<^verbatim>\<open>ZeroDivisionError\<close> for no cells, and indexing a list past its end raises
  \<^verbatim>\<open>IndexError\<close>.

  \<^verbatim>\<open>Intercom_binaural.record_send_and_play_stereo\<close>, lines 23 to 27.
\<close>

definition binaural_record_send_and_play_stereo ::
  "('a::len chunk \<Rightarrow> 'a chunk intercom \<Rightarrow> 'a chunk intercom) \<Rightarrow> ('a chunk intercom \<Rightarrow> 'a chunk intercom)
   \<Rightarrow> 'a chunk \<Rightarrow> 'a chunk intercom \<Rightarrow> py_error + 'a chunk intercom" where
  "binaural_record_send_and_play_stereo send play indata s =
     (let s1 = send (binaural_decorrelate indata) s in
      if cells_in_buffer s1 = 0 then Inl ZeroDivisionError
      else let k = played_chunk_number s1 mod cells_in_buffer s1 in
        if length (buffer s1) \<le> k then Inl IndexError
        else Inr (play (s1\<lparr>buffer := (buffer s1)[k := binaural_recorrelate (buffer s1 ! k)]\<rparr>)))"

text \<open>
  The sound device calls \<^verbatim>\<open>self.record_send_and_play\<close>, whichever handler is
  installed: the parent classes' (\<open>inherited\<close>) or the stereo one.
\<close>

definition callback :: "('i \<Rightarrow> 's \<Rightarrow> 'r) \<Rightarrow> ('i \<Rightarrow> 's \<Rightarrow> 'r) \<Rightarrow> handler \<Rightarrow> 'i \<Rightarrow> 's \<Rightarrow> 'r" where
  "callback inherited stereo h =
     (case h of Inherited_handler \<Rightarrow> inherited | Stereo_handler \<Rightarrow> stereo)"

text \<open>
  Line 113, \<^verbatim>\<open>indata[:,0] = ...\<close>: the assigned array must have the column's length,
  or length 1 (NumPy repeats the one value); any other length raises \<^verbatim>\<open>ValueError\<close>.
\<close>

definition set_channel0 :: "'a chunk \<Rightarrow> 'a word list \<Rightarrow> py_error + 'a chunk" where
  "set_channel0 indata v =
     (if length v = length indata then Inr (map2 (\<lambda>c (c0, c1). (c, c1)) v indata)
      else if length v = 1 then Inr (map (\<lambda>(c0, c1). (hd v, c1)) indata)
      else Inl ValueError)"

text \<open>
  \<^verbatim>\<open>Intercom_DWT.record_send_and_play_stereo\<close>, lines 111 to 126.
  \<^verbatim>\<open>forward_transform\<close> and \<^verbatim>\<open>inverse_transform\<close> (lines 128 to 134) only call
  PyWavelets on floating-point arrays; they are parameters that may raise.
  \<open>forward_transform\<close> stands for the call of line 113 together with the conversion of
  its result to the samples of the column it is assigned to. \<open>inverse_transform\<close> takes
  the whole cell, as line 124 passes it. The chunk and the cells have one sample type
  here; since the chunk is packed, it is a type of more than 16 bits.

  Lines 112 to 116, the chunk handed to \<^verbatim>\<open>send\<close>:
\<close>

definition send_path ::
  "('a::len word list \<Rightarrow> py_error + 'a word list) \<Rightarrow> 'a chunk \<Rightarrow> py_error + 'a chunk" where
  "send_path forward_transform indata =
     (let indata1 = dwt_decorrelate indata in
      case forward_transform (map fst indata1) of
        Inl e \<Rightarrow> Inl e
      | Inr coeffs \<Rightarrow>
          (case set_channel0 indata1 coeffs of
             Inl e \<Rightarrow> Inl e
           | Inr indata2 \<Rightarrow> Inr (pack_chunk indata2)))"

text \<open>
  Lines 118 to 124, the new content of the buffer cell that is played. These lines
  leave \<^verbatim>\<open>played_chunk_number\<close> and \<^verbatim>\<open>cells_in_buffer\<close> alone, so each of them
  indexes the same cell \<open>k\<close>; line 126 runs after \<^verbatim>\<open>play\<close> and computes its index
  \<open>k'\<close> again.
\<close>

definition play_path ::
  "('a::len chunk \<Rightarrow> py_error + 'a chunk) \<Rightarrow> 'a chunk \<Rightarrow> py_error + 'a chunk" where
  "play_path inverse_transform cell =
     (let chunk = unpack_chunk cell;
          chunk1 = dwt_recorrelate chunk
      in inverse_transform chunk1)"

definition dwt_record_send_and_play_stereo ::
  "('a::len word list \<Rightarrow> py_error + 'a word list) \<Rightarrow> ('a chunk \<Rightarrow> py_error + 'a chunk)
   \<Rightarrow> ('a chunk \<Rightarrow> 'a chunk intercom \<Rightarrow> 'a chunk intercom) \<Rightarrow> ('a chunk intercom \<Rightarrow> 'a chunk intercom)
   \<Rightarrow> 'a chunk \<Rightarrow> 'a chunk intercom \<Rightarrow> py_error + 'a chunk intercom" where
  "dwt_record_send_and_play_stereo forward_transform inverse_transform send play indata s =
     (case send_path forward_transform indata of
        Inl e \<Rightarrow> Inl e
      | Inr packed \<Rightarrow>
          (let s1 = send packed s in
           if cells_in_buffer s1 = 0 then Inl ZeroDivisionError
           else let k = played_chunk_number s1 mod cells_in_buffer s1 in
             if length (buffer s1) \<le> k then Inl IndexError
             else case play_path inverse_transform (buffer s1 ! k) of
                 Inl e \<Rightarrow> Inl e
               | Inr chunk \<Rightarrow>
                   (let s2 = play (s1\<lparr>buffer := (buffer s1)[k := chunk]\<rparr>) in
                    if cells_in_buffer s2 = 0 then Inl ZeroDivisionError
                    else let k' = played_chunk_number s2 mod cells_in_buffer s2 in
                      if length (received_bitplanes_per_chunk s2) \<le> k' then Inl IndexError
                      else Inr (s2\<lparr>received_bitplanes_per_chunk :=
                                     (received_bitplanes_per_chunk s2)[k' := 0]\<rparr>))))"

text \<open>
  The play path in the order the specification gives it (unpack, inverse-transform
  channel 0, re-correlate), for comparison with \<open>play_path\<close>. Here the inverse transform
  receives channel 0 alone, as \<open>forward_transform\<close> does on the send path.
\<close>

definition play_path_spec ::
  "('a::len word list \<Rightarrow> py_error + 'a word list) \<Rightarrow> 'a chunk \<Rightarrow> py_error + 'a chunk" where
  "play_path_spec inverse_transform cell =
     (let chunk = unpack_chunk cell in
      case inverse_transform (map fst chunk) of
        Inl e \<Rightarrow> Inl e
      | Inr samples \<Rightarrow>
          (case set_channel0 chunk samples of
             Inl e \<Rightarrow> Inl e
           | Inr chunk1 \<Rightarrow> Inr (dwt_recorrelate chunk1)))"

section \<open>Decorrelation is exactly invertible\<close>

lemma binaural_frame_roundtrip:
  "binaural_recorrelate (binaural_decorrelate C) = C"
  by (induction C) (auto simp: binaural_decorrelate_def binaural_recorrelate_def)

lemma dwt_frame_roundtrip:
  "dwt_recorrelate (dwt_decorrelate C) = C"
  by (induction C) (auto simp: dwt_decorrelate_def dwt_recorrelate_def)

text \<open>
  C4. For every stereo chunk of fixed-width samples, of any width, adding the reference
  channel back into the residue channel undoes the subtraction exactly, wrap-around
  included: in the plain mode (channel 0 is the residue) and in the transform mode
  (channel 1 is the residue).
\<close>

theorem decorrelation_roundtrip:
  "binaural_recorrelate (binaural_decorrelate C) = C
   \<and> dwt_recorrelate (dwt_decorrelate C) = C"
  by (simp add: binaural_frame_roundtrip dwt_frame_roundtrip)

section \<open>Bit-level facts about the pack and unpack constants\<close>

lemma const_0x7FFF: "(0x7FFF :: 'a::len word) = mask 15"
  by (simp add: mask_eq_exp_minus_1)

lemma const_0x8000: "(0x8000 :: 'a::len word) = 2 ^ 15"
  by simp

lemma and_0x8000: "(x :: 'a::len word) AND 0x8000 = (if bit x 15 then 0x8000 else 0)"
  unfolding const_0x8000
  by (rule bit_word_eqI) (auto simp add: bit_and_iff bit_exp_iff simp del: power_numeral)

lemma recombine_zero: "recombine m 0 = m"
  by (simp add: recombine_def)

lemma recombine_minus_one: "recombine m (- 1) = - m"
  by (simp add: recombine_def)

subsection \<open>Words of 16 bits\<close>

lemma shift15_word16: "signed_drop_bit 15 (c :: 16 word) = (if bit c 15 then - 1 else 0)"
proof (rule bit_word_eqI)
  fix n assume n: "n < LENGTH(16)"
  show "bit (signed_drop_bit 15 c) n = bit (if bit c 15 then - 1 else 0 :: 16 word) n"
  proof (cases "n = 0")
    case True
    then show ?thesis by (simp add: bit_signed_drop_bit_iff)
  next
    case False
    then have "1 \<le> n" by simp
    then show ?thesis using n by (simp add: bit_signed_drop_bit_iff)
  qed
qed

lemma negative_word16: "sint (x :: 16 word) < 0 \<longleftrightarrow> bit x 15"
  using bit_last_iff [of x] by simp

lemma unpack_word16:
  "unpack (c :: 16 word) = (if bit c 15 then - (c AND mask 15) else c AND mask 15)"
  by (simp add: unpack_def shift15_word16 const_0x7FFF Let_def recombine_def)

lemma sint_unpack_word16:
  "sint (unpack (c :: 16 word)) =
     (if bit c 15 then - sint (c AND 0x7FFF) else sint (c AND 0x7FFF))"
proof -
  let ?m = "c AND mask 15"
  have nb: "\<not> bit ?m 15" by (simp add: bit_and_iff bit_mask_iff)
  have "sint (- ?m) = - sint ?m"
  proof (cases "?m = 0")
    case True
    then show ?thesis by simp
  next
    case False
    have "0 \<le> sint ?m" using nb by (simp flip: negative_word16)
    moreover have "sint ?m < 2 ^ 15" using sint_lt [of ?m] by simp
    ultimately have "signed_take_bit 15 (- sint ?m) = - sint ?m"
      by (simp add: signed_take_bit_int_eq_self)
    then show ?thesis by (simp add: sint_word_minus)
  qed
  then show ?thesis by (simp add: unpack_word16 const_0x7FFF)
qed

subsection \<open>Wider words\<close>

lemma int_bit15:
  assumes "- 32768 \<le> k" "k \<le> 32767"
  shows "bit (k::int) 15 \<longleftrightarrow> k < 0"
proof -
  have "signed_take_bit 15 k = k"
    using assms by (intro signed_take_bit_int_eq_self) simp_all
  then show ?thesis using signed_take_bit_negative_iff [of 15 k] by simp
qed

lemma wide_bit15:
  assumes "16 < LENGTH('a::len)"
  shows "bit (x :: 'a word) 15 \<longleftrightarrow> bit (sint x) 15"
  using assms by (simp add: bit_sint_iff)

lemma wide_sint_small:
  assumes "16 < LENGTH('a::len)" "- 65536 \<le> (k::int)" "k < 65536"
  shows "signed_take_bit (LENGTH('a) - 1) k = k"
proof -
  have "(2::int) ^ 16 \<le> 2 ^ (LENGTH('a) - 1)"
    using assms(1) by (intro power_increasing) auto
  then show ?thesis using assms(2,3) by (intro signed_take_bit_int_eq_self) auto
qed

section \<open>The packed word\<close>

text \<open>
  C10. NumPy evaluates \<^verbatim>\<open>indata & 0x8000\<close> and the \<^verbatim>\<open>|\<close> in a type wide enough for
  \<^verbatim>\<open>0x8000\<close>, that is in more than 16 bits. There, for every sample \<open>x\<close> with
  \<open>-32767 \<le> x \<le> 32767\<close>, the packed value lies in \<open>[0, 65535]\<close>, so it is not negative,
  and its bit 15 is set exactly when \<open>x\<close> is negative.
\<close>

theorem pack_range:
  fixes x :: "'a::len word"
  assumes w: "16 < LENGTH('a)" and lo: "- 32767 \<le> sint x" and hi: "sint x \<le> 32767"
  shows "0 \<le> sint (pack x) \<and> sint (pack x) \<le> 65535 \<and> (bit (pack x) 15 \<longleftrightarrow> sint x < 0)"
proof (cases "sint x < 0")
  case False
  then have nb: "\<not> bit x 15"
    using lo hi by (simp add: wide_bit15 [OF w] int_bit15)
  then have "pack x = x"
    using False by (simp add: pack_def np_abs_def and_0x8000)
  then show ?thesis using False hi nb by simp
next
  case True
  then have b: "bit x 15"
    using lo hi by (simp add: wide_bit15 [OF w] int_bit15)
  have sm: "sint (- x) = - sint x"
  proof -
    have "signed_take_bit (LENGTH('a) - 1) (- sint x) = - sint x"
      using lo hi by (intro wide_sint_small [OF w]) auto
    then show ?thesis by (simp only: sint_word_minus)
  qed
  have nb: "\<not> bit (- x) 15"
    using lo hi True by (simp add: wide_bit15 [OF w] sm int_bit15)
  have po: "pack x = 2 ^ 15 OR (- x)"
    using True b by (simp add: pack_def np_abs_def and_0x8000)
  have p: "pack x = 2 ^ 15 + (- x)"
    unfolding po using nb
    by (intro disjunctive_add [symmetric]) (auto simp add: bit_exp_iff simp del: power_numeral)
  have s15: "sint (2 ^ 15 :: 'a word) = 32768"
  proof -
    have "signed_take_bit (LENGTH('a) - 1) (32768::int) = 32768"
      by (intro wide_sint_small [OF w]) auto
    then have "sint (word_of_int 32768 :: 'a word) = 32768"
      by (simp only: sint_sbintrunc')
    then show ?thesis by simp
  qed
  have "sint (pack x) = 32768 - sint x"
  proof -
    have "signed_take_bit (LENGTH('a) - 1) (32768 - sint x) = 32768 - sint x"
      using lo hi True by (intro wide_sint_small [OF w]) auto
    then show ?thesis by (simp only: p sint_word_add s15 sm) simp
  qed
  moreover have "bit (pack x) 15"
    unfolding po using w by (simp add: bit_or_iff bit_exp_iff del: power_numeral)
  ultimately show ?thesis using True lo hi by simp
qed

theorem pack_range_witness:
  "16 < LENGTH(32) \<and> - 32767 \<le> sint (- 5 :: 32 word) \<and> sint (- 5 :: 32 word) \<le> 32767
   \<and> 0 \<le> sint (pack (- 5 :: 32 word)) \<and> sint (pack (- 5 :: 32 word)) \<le> 65535
   \<and> bit (pack (- 5 :: 32 word)) 15"
  using pack_range [of "- 5 :: 32 word"] by simp

section \<open>Pack and unpack\<close>

subsection \<open>Unpacking in the width of the packed array\<close>

lemma int_low_bits:
  assumes "0 \<le> (k::int)" "k < 2 ^ 15" "bit k n"
  shows "n < 15"
proof -
  have "take_bit 15 k = k" using assms(1,2) by (simp add: take_bit_int_eq_self)
  then have "bit k n \<longleftrightarrow> n < 15 \<and> bit k n" by (metis bit_take_bit_iff)
  with assms(3) show ?thesis by simp
qed

lemma wide_low_bits:
  fixes y :: "'a::len word"
  assumes "0 \<le> sint y" "sint y < 2 ^ 15" "bit y n"
  shows "n < 15"
proof -
  have "bit (sint y) n" using assms(3) by (simp add: bit_sint_iff)
  with assms(1,2) show ?thesis by (rule int_low_bits)
qed

lemma wide_low15:
  fixes y :: "'a::len word"
  assumes "0 \<le> sint y" "sint y < 2 ^ 15"
  shows "y AND 0x7FFF = y"
  unfolding const_0x7FFF
  by (rule bit_word_eqI) (auto simp: bit_and_iff bit_mask_iff dest: wide_low_bits [OF assms])

lemma wide_shift15_value:
  fixes y :: "'a::len word"
  assumes "sint y = 32768 * q + r" "0 \<le> r" "r < 32768"
  shows "signed_drop_bit 15 y = word_of_int q"
proof -
  have "drop_bit 15 (sint y) = q"
    using assms by (simp add: drop_bit_eq_div div_pos_pos_trivial)
  then have "sint (signed_drop_bit 15 y) = q"
    by (simp add: sint_signed_drop_bit_eq)
  then have "word_of_int (sint (signed_drop_bit 15 y)) = (word_of_int q :: 'a word)"
    by simp
  then show ?thesis by simp
qed

text \<open>
  In a width above 16 the shift of line 119 leaves 0 for a packed sample that was not
  negative and 1, not \<open>- 1\<close>, for one that was: unpacking returns the samples from 0 to
  32767 and gives three times the magnitude for the negative ones.
\<close>

lemma unpack_pack_wide:
  fixes x :: "'a::len word"
  assumes w: "16 < LENGTH('a)" and lo: "- 32767 \<le> sint x" and hi: "sint x \<le> 32767"
  shows "unpack (pack x) = (if sint x < 0 then 3 * (- x) else x)"
proof (cases "sint x < 0")
  case False
  then have nb: "\<not> bit x 15"
    using lo hi by (simp add: wide_bit15 [OF w] int_bit15)
  then have p: "pack x = x"
    using False by (simp add: pack_def np_abs_def and_0x8000)
  have "signed_drop_bit 15 x = word_of_int 0"
    using False hi by (intro wide_shift15_value [where r = "sint x"]) simp_all
  moreover have "x AND 0x7FFF = x"
    using False hi by (intro wide_low15) simp_all
  ultimately show ?thesis
    using False by (simp add: p unpack_def recombine_def)
next
  case True
  then have b: "bit x 15"
    using lo hi by (simp add: wide_bit15 [OF w] int_bit15)
  have sm: "sint (- x) = - sint x"
  proof -
    have "signed_take_bit (LENGTH('a) - 1) (- sint x) = - sint x"
      using lo hi by (intro wide_sint_small [OF w]) auto
    then show ?thesis by (simp only: sint_word_minus)
  qed
  have nb: "\<not> bit (- x) 15"
    using lo hi True by (simp add: wide_bit15 [OF w] sm int_bit15)
  have po: "pack x = 2 ^ 15 OR (- x)"
    using True b by (simp add: pack_def np_abs_def and_0x8000)
  have p: "pack x = 2 ^ 15 + (- x)"
    unfolding po using nb
    by (intro disjunctive_add [symmetric]) (auto simp add: bit_exp_iff simp del: power_numeral)
  have s15: "sint (2 ^ 15 :: 'a word) = 32768"
  proof -
    have "signed_take_bit (LENGTH('a) - 1) (32768::int) = 32768"
      by (intro wide_sint_small [OF w]) auto
    then have "sint (word_of_int 32768 :: 'a word) = 32768"
      by (simp only: sint_sbintrunc')
    then show ?thesis by simp
  qed
  have sp: "sint (pack x) = 32768 * 1 + (- sint x)"
  proof -
    have "signed_take_bit (LENGTH('a) - 1) (32768 - sint x) = 32768 - sint x"
      using lo hi True by (intro wide_sint_small [OF w]) auto
    then show ?thesis by (simp only: p sint_word_add s15 sm) simp
  qed
  have sh: "signed_drop_bit 15 (pack x) = word_of_int 1"
    using sp lo True by (intro wide_shift15_value [where r = "- sint x"]) simp_all
  have low: "pack x AND 0x7FFF = - x"
  proof -
    have "(2 ^ 15 OR (- x)) AND mask 15 = (- x) AND mask 15"
      by (rule bit_word_eqI)
        (auto simp add: bit_and_iff bit_or_iff bit_mask_iff bit_exp_iff simp del: power_numeral)
    moreover have "(- x) AND 0x7FFF = - x"
      using lo True sm by (intro wide_low15) simp_all
    ultimately show ?thesis by (simp add: po const_0x7FFF)
  qed
  show ?thesis
    using True by (simp add: unpack_def sh low recombine_def)
qed



subsection \<open>Unpacking a cell of 16-bit samples\<close>

text \<open>
  In a cell whose samples are 16-bit words the shift by 15 leaves 0 when bit 15 is clear
  and \<open>- 1\<close> when it is set, and the recombination gives the magnitude with the sign
  that bit 15 shows.
\<close>

lemma unpack_int16_cell:
  fixes c m :: "16 word"
  shows "signed_drop_bit 15 c = (if bit c 15 then - 1 else 0)
    \<and> unpack c = recombine (c AND 0x7FFF) (signed_drop_bit 15 c)
    \<and> recombine m 0 = m \<and> recombine m (- 1) = - m
    \<and> sint (unpack c) = (if bit c 15 then - sint (c AND 0x7FFF) else sint (c AND 0x7FFF))"
proof -
  have "unpack c = recombine (c AND 0x7FFF) (signed_drop_bit 15 c)"
    by (simp add: unpack_def)
  then show ?thesis
    using shift15_word16 [of c] recombine_zero [of m] recombine_minus_one [of m]
      sint_unpack_word16 [of c]
    by (intro conjI)
qed

section \<open>Calibration failure\<close>

text \<open>
  C5. When the range of the probe's coefficients, \<open>max - min\<close>, is not positive,
  \<^verbatim>\<open>math.log\<close> raises: \<open>get_coeffs_bitplanes\<close> returns no bitplane count, the
  exception leaves \<open>init\<close>, and \<open>run\<close> is not called, whatever the floating-point
  evaluation of line 100 gives on positive ranges.
\<close>

theorem calibration_fails_on_nonpositive_range:
  assumes "Max (set arr) - Min (set arr) \<le> 0"
  shows "get_coeffs_bitplanes log2_floor arr = Inl ValueError
    \<and> dwt_init log2_floor arr s = Inl ValueError
    \<and> dwt_main log2_floor run arr s = Inl ValueError"
proof -
  have "math_log_raises (Max (set arr) - Min (set arr))"
    using assms by (simp add: math_log_raises_def)
  then have "get_coeffs_bitplanes log2_floor arr = Inl ValueError"
    by (simp add: get_coeffs_bitplanes_def Let_def)
  then show ?thesis by (simp add: dwt_init_def dwt_main_def)
qed

theorem calibration_fails_on_nonpositive_range_witness:
  "Max (set [0, 0, 0 :: real]) - Min (set [0, 0, 0 :: real]) \<le> 0
   \<and> get_coeffs_bitplanes (\<lambda>r. \<lfloor>log 2 r\<rfloor>) [0, 0, 0] = Inl ValueError
   \<and> dwt_main (\<lambda>r. \<lfloor>log 2 r\<rfloor>) (\<lambda>s. played_chunk_number s) [0, 0, 0]
        \<lparr>number_of_channels = 2, record_send_and_play = Stereo_handler,
         buffer = [[(0 :: 16 word, 0 :: 16 word)]], played_chunk_number = 0, cells_in_buffer = 1,
         received_bitplanes_per_chunk = [0], precision_bits = 0\<rparr> = Inl ValueError"
proof -
  have h: "Max (set [0, 0, 0 :: real]) - Min (set [0, 0, 0 :: real]) \<le> 0" by simp
  show ?thesis
    using h calibration_fails_on_nonpositive_range
      [where arr = "[0, 0, 0]" and run = "\<lambda>s. played_chunk_number s"
         and log2_floor = "\<lambda>r. \<lfloor>log 2 r\<rfloor>"
         and s = "\<lparr>number_of_channels = 2, record_send_and_play = Stereo_handler,
           buffer = [[(0 :: 16 word, 0 :: 16 word)]], played_chunk_number = 0, cells_in_buffer = 1,
           received_bitplanes_per_chunk = [0], precision_bits = 0\<rparr>", OF h]
    by simp
qed

section \<open>Mono sessions\<close>

text \<open>
  C9. \<open>init\<close> installs the stereo handler exactly when the session has two channels.
  In a session with one channel it changes nothing: the callback stays the handler of
  the parent classes, so no chunk of the session reaches the decorrelation statements.
\<close>

theorem mono_session_is_pass_through:
  assumes "number_of_channels s = 1" and "record_send_and_play s = Inherited_handler"
  shows "binaural_init s = s
    \<and> callback inherited stereo (record_send_and_play (binaural_init s)) = inherited
    \<and> (record_send_and_play (binaural_init t) = Stereo_handler
        \<longleftrightarrow> number_of_channels t = 2 \<or> record_send_and_play t = Stereo_handler)"
  using assms by (simp add: binaural_init_def callback_def)

theorem mono_session_is_pass_through_witness:
  "number_of_channels
     \<lparr>number_of_channels = 1, record_send_and_play = Inherited_handler,
      buffer = [[0 :: 16 word]], played_chunk_number = 0, cells_in_buffer = 1,
      received_bitplanes_per_chunk = [0], precision_bits = 0\<rparr> = 1
   \<and> callback (\<lambda>(indata :: 16 word list) (n :: nat). n) (\<lambda>indata n. Suc n)
        (record_send_and_play (binaural_init
          \<lparr>number_of_channels = 1, record_send_and_play = Inherited_handler,
           buffer = [[0 :: 16 word]], played_chunk_number = 0, cells_in_buffer = 1,
           received_bitplanes_per_chunk = [0], precision_bits = 0\<rparr>)) [7] 0 = 0"
  using mono_session_is_pass_through
    [where s = "\<lparr>number_of_channels = 1, record_send_and_play = Inherited_handler,
           buffer = [[0 :: 16 word]], played_chunk_number = 0, cells_in_buffer = 1,
           received_bitplanes_per_chunk = [0], precision_bits = 0\<rparr>"
       and t = "\<lparr>number_of_channels = 1, record_send_and_play = Inherited_handler,
           buffer = [[0 :: 16 word]], played_chunk_number = 0, cells_in_buffer = 1,
           received_bitplanes_per_chunk = [0], precision_bits = 0\<rparr>"
       and inherited = "\<lambda>(indata :: 16 word list) (n :: nat). n"
       and stereo = "\<lambda>indata n. Suc n"]
  by (simp add: callback_def)

section \<open>Order of the stages\<close>

lemma play_path_order:
  "play_path inverse_transform cell = inverse_transform (dwt_recorrelate (unpack_chunk cell))"
  by (simp add: play_path_def)

lemma send_path_keeps_residue:
  assumes "send_path forward_transform indata = Inr packed"
  shows "\<exists>coeffs indata2.
      forward_transform (map fst (dwt_decorrelate indata)) = Inr coeffs
    \<and> set_channel0 (dwt_decorrelate indata) coeffs = Inr indata2
    \<and> packed = pack_chunk indata2"
  using assms by (auto simp: send_path_def Let_def split: sum.splits)

text \<open>
  C3. The play path of the code re-correlates before the inverse transform and hands
  the whole cell, channel 1 included, to the inverse transform. With a stand-in transform
  that negates every sample it is given, the cell \<open>[(1, 2)]\<close> comes out as \<open>[(-1, -3)]\<close>;
  in the order unpack, inverse-transform channel 0, re-correlate it is \<open>[(-1, 1)]\<close>.
\<close>

theorem play_path_transforms_residue_channel:
  "play_path (\<lambda>chunk. Inr (map (\<lambda>(c0, c1). (- c0, - c1)) chunk)) [(1, 2 :: 16 word)]
     = Inr [(- 1, - 3)]
   \<and> play_path_spec (\<lambda>samples. Inr (map uminus samples)) [(1, 2 :: 16 word)]
     = Inr [(- 1, 1)]"
  by (simp add: play_path_def play_path_spec_def unpack_chunk_def dwt_recorrelate_def
      set_channel0_def unpack_def recombine_def shift15_word16 Let_def)

section \<open>The reset of the reception counter\<close>



text \<open>
  Line 126 runs after \<^verbatim>\<open>play\<close> and indexes the counters with
  \<^verbatim>\<open>played_chunk_number % cells_in_buffer\<close> as they are then: whenever the handler
  returns, the counter at that index is zero in the state it leaves.
\<close>

lemma counter_reset_at_index_after_play:
  assumes "dwt_record_send_and_play_stereo forward_transform inverse_transform
             send play indata s = Inr s'"
  shows "received_bitplanes_per_chunk s' ! (played_chunk_number s' mod cells_in_buffer s') = 0"
  using assms
  by (auto simp: dwt_record_send_and_play_stereo_def Let_def split: sum.splits if_splits)




end
